theory Spec2Isabelle
  imports Complex_Main
begin

section \<open>The guitar input pipeline: listener and note resolver\<close>

text \<open>
  The development follows \<^verbatim>\<open>jogo/comunicacao/guitarra/listenerguitarra.py\<close> and
  \<^verbatim>\<open>jogo/comunicacao/guitarra/interfaceguitarra.py\<close>.

  Conventions of the embedding.
  \<^item> A Python \<^verbatim>\<open>float\<close> is a \<^typ>\<open>real\<close>: the comparisons and the one subtraction
    of the source are read over the reals. Rounding, infinities and NaN are outside the model.
  \<^item> A Python \<^verbatim>\<open>bytes\<close> value is a \<^typ>\<open>string\<close> (a list of 8-bit characters); a
    Python \<^verbatim>\<open>str\<close> is a list of Unicode code points (\<^typ>\<open>nat list\<close>).
  \<^item> An exception is a value of type \<open>exn\<close>; an operation that can raise returns
    \<open>exn + 'a\<close> or carries an \<open>exn option\<close> beside the state it leaves behind.
  \<^item> The lock of the listener serialises the accesses of the two threads; the operations
    below are the sequential steps taken under it, so it has no field of its own.
\<close>

subsection \<open>Python values and exceptions\<close>

datatype exn =
    UnicodeDecodeError
  | ValueError
  | KeyError
  | RuntimeError
  | AttributeError
  | TypeError
  | SerialException
  | OtherError string

text \<open>
  The dynamically typed arguments of the source (the value given to the \<^verbatim>\<open>range\<close>
  setter, the codes bound by \<^verbatim>\<open>atribui_notas\<close>). A \<^verbatim>\<open>bool\<close> is an \<^verbatim>\<open>int\<close> in
  Python and is represented by \<open>PyInt 0\<close> or \<open>PyInt 1\<close>.
\<close>

datatype pyval = PyNone | PyInt int | PyFloat real | PyStr "nat list"

text \<open>\<^verbatim>\<open>isinstance(value, float)\<close>\<close>

fun isinstance_float :: "pyval \<Rightarrow> bool" where
  "isinstance_float (PyFloat x) = True"
| "isinstance_float v = False"

subsection \<open>\<^verbatim>\<open>NotaGuitarra\<close>\<close>

record NotaGuitarra =
  codigo :: real
  on :: bool

subsection \<open>\<^verbatim>\<open>ListenerGuitarra\<close>: state\<close>

text \<open>
  \<open>'cb\<close> is the type of the registered callables. A \<^verbatim>\<open>Serial\<close> object and a
  \<^verbatim>\<open>Thread\<close> object are references (\<^typ>\<open>nat\<close>) into the environment below.
\<close>

record 'cb ListenerGuitarra =
  input_port :: "nat option"
  callbacks :: "'cb list"
  lrange :: real
  running :: bool
  thread :: "nat option"
  nota_buffer :: "NotaGuitarra option"

text \<open>\<^verbatim>\<open>ListenerGuitarra.__init__\<close>\<close>

definition new_listener :: "'cb ListenerGuitarra" where
  "new_listener =
     \<lparr> input_port = None, callbacks = [], lrange = 0.5, running = False,
       thread = None, nota_buffer = None \<rparr>"

text \<open>
  The environment of a listener: which \<^verbatim>\<open>Serial\<close> objects are open, which devices can
  be opened at all, the polling threads that are alive, and the next fresh thread reference.
\<close>

record env =
  is_open :: "nat \<Rightarrow> bool"
  openable :: "nat \<Rightarrow> bool"
  alive :: "nat list"
  next_thread :: nat

definition new_env :: "(nat \<Rightarrow> bool) \<Rightarrow> env" where
  "new_env dev = \<lparr> is_open = (\<lambda>p. False), openable = dev, alive = [], next_thread = 0 \<rparr>"

subsection \<open>\<^verbatim>\<open>ListenerGuitarra\<close>: the \<^verbatim>\<open>range\<close> setter\<close>

fun range_setter :: "'cb ListenerGuitarra \<Rightarrow> pyval \<Rightarrow> 'cb ListenerGuitarra" where
  "range_setter l (PyFloat v) =
     (if v > 0.5 then l\<lparr>lrange := 0.5\<rparr>
      else if v < 0 then l\<lparr>lrange := 0\<rparr>
      else l\<lparr>lrange := v\<rparr>)"
| "range_setter l v = l"

subsection \<open>\<^verbatim>\<open>ListenerGuitarra\<close>: port and callback registration\<close>

text \<open>
  The \<^verbatim>\<open>input_port\<close> setter: opens the port when it is closed (\<^verbatim>\<open>open()\<close> raises for a
  device that cannot be opened), closes the port held before, stores the new one.
\<close>

definition input_port_setter ::
  "'cb ListenerGuitarra \<Rightarrow> env \<Rightarrow> nat \<Rightarrow> exn option \<times> 'cb ListenerGuitarra \<times> env" where
  "input_port_setter l e port =
     (if \<not> is_open e port \<and> \<not> openable e port then (Some SerialException, l, e)
      else
        let e1 = (if \<not> is_open e port then e\<lparr>is_open := (is_open e)(port := True)\<rparr> else e);
            e2 = (case input_port l of
                    None \<Rightarrow> e1
                  | Some old \<Rightarrow> e1\<lparr>is_open := (is_open e1)(old := False)\<rparr>)
        in (None, l\<lparr>input_port := Some port\<rparr>, e2))"

text \<open>The \<^verbatim>\<open>callback\<close> setter appends to the list.\<close>

definition callback_setter :: "'cb ListenerGuitarra \<Rightarrow> 'cb \<Rightarrow> 'cb ListenerGuitarra" where
  "callback_setter l func = l\<lparr>callbacks := callbacks l @ [func]\<rparr>"

subsection \<open>\<^verbatim>\<open>ListenerGuitarra\<close>: lifecycle\<close>

text \<open>
  \<^verbatim>\<open>start()\<close> creates and starts a thread when the listener is not running and holds no
  thread. \<^verbatim>\<open>stop()\<close> takes the lock and releases it. \<^verbatim>\<open>close()\<close> clears the flag,
  joins the thread and drops it; \<^verbatim>\<open>join()\<close> returns when the thread has ended, so the
  thread is no longer alive in the state after \<open>close\<close>.
\<close>

definition start :: "'cb ListenerGuitarra \<Rightarrow> env \<Rightarrow> 'cb ListenerGuitarra \<times> env" where
  "start l e =
     (if \<not> running l \<and> thread l = None
      then (l\<lparr>running := True, thread := Some (next_thread e)\<rparr>,
            e\<lparr>alive := alive e @ [next_thread e], next_thread := Suc (next_thread e)\<rparr>)
      else (l, e))"

definition stop :: "'cb ListenerGuitarra \<Rightarrow> env \<Rightarrow> 'cb ListenerGuitarra \<times> env" where
  "stop l e = (l, e)"

definition close :: "'cb ListenerGuitarra \<Rightarrow> env \<Rightarrow> exn option \<times> 'cb ListenerGuitarra \<times> env" where
  "close l e =
     (if running l
      then (case thread l of
              None \<Rightarrow> (Some AttributeError, l\<lparr>running := False\<rparr>, e)
            | Some t \<Rightarrow> (None, l\<lparr>running := False, thread := None\<rparr>,
                          e\<lparr>alive := removeAll t (alive e)\<rparr>))
      else (None, l, e))"

subsection \<open>Text: decoding, splitting, stripping, classification\<close>

text \<open>
  \<^verbatim>\<open>bytes.decode()\<close>: strict UTF-8. \<open>utf8_decode\<close> works on the byte values and gives
  \<open>None\<close> where Python raises \<^verbatim>\<open>UnicodeDecodeError\<close> (a stray or missing continuation
  byte, an overlong form, a surrogate, a value above U+10FFFF).
\<close>

definition cont_byte :: "nat \<Rightarrow> bool" where
  "cont_byte b = (128 \<le> b \<and> b < 192)"

fun utf8_decode :: "nat list \<Rightarrow> nat list option" where
  "utf8_decode [] = Some []"
| "utf8_decode (b0 # bs) =
     (if b0 < 128 then map_option ((#) b0) (utf8_decode bs)
      else if 194 \<le> b0 \<and> b0 < 224 then
        (case bs of
           b1 # r \<Rightarrow>
             (if cont_byte b1
              then map_option ((#) ((b0 - 192) * 64 + (b1 - 128))) (utf8_decode r)
              else None)
         | _ \<Rightarrow> None)
      else if 224 \<le> b0 \<and> b0 < 240 then
        (case bs of
           b1 # b2 # r \<Rightarrow>
             (if cont_byte b1 \<and> cont_byte b2
                 \<and> (b0 = 224 \<longrightarrow> 160 \<le> b1) \<and> (b0 = 237 \<longrightarrow> b1 < 160)
              then map_option ((#) ((b0 - 224) * 4096 + (b1 - 128) * 64 + (b2 - 128)))
                     (utf8_decode r)
              else None)
         | _ \<Rightarrow> None)
      else if 240 \<le> b0 \<and> b0 < 245 then
        (case bs of
           b1 # b2 # b3 # r \<Rightarrow>
             (if cont_byte b1 \<and> cont_byte b2 \<and> cont_byte b3
                 \<and> (b0 = 240 \<longrightarrow> 144 \<le> b1) \<and> (b0 = 244 \<longrightarrow> b1 < 144)
              then map_option
                     ((#) ((b0 - 240) * 262144 + (b1 - 128) * 4096 + (b2 - 128) * 64
                           + (b3 - 128)))
                     (utf8_decode r)
              else None)
         | _ \<Rightarrow> None)
      else None)"

definition decode :: "string \<Rightarrow> nat list option" where
  "decode linha_bytes = utf8_decode (map of_char linha_bytes)"

text \<open>\<^verbatim>\<open>str.split(sep)\<close> for a one-character separator: never an empty list.\<close>

fun py_split :: "nat \<Rightarrow> nat list \<Rightarrow> nat list list" where
  "py_split sep [] = [[]]"
| "py_split sep (c # cs) =
     (if c = sep then [] # py_split sep cs
      else (case py_split sep cs of
              [] \<Rightarrow> [[c]]
            | f # fs \<Rightarrow> (c # f) # fs))"

text \<open>
  The classification of characters comes from the Unicode Character Database of the Python
  interpreter. It is a parameter of the model: \<open>space\<close> is \<^verbatim>\<open>str.isspace\<close> on one
  character, \<open>numeric_type\<close> gives the numeric property of a character. \<^verbatim>\<open>str.isnumeric\<close>
  accepts the three numeric types; \<^verbatim>\<open>float\<close> reads decimal digits only.
\<close>

datatype numeric_type = NotNumeric | Decimal nat | Digit | Numeric

record ucd =
  space :: "nat \<Rightarrow> bool"
  numeric_type :: "nat \<Rightarrow> numeric_type"

text \<open>
  The database on the Latin-1 block (code points below 256): the white space characters,
  the digits \<open>0\<close> to \<open>9\<close>, the superscripts \<open>U+00B2\<close>, \<open>U+00B3\<close>, \<open>U+00B9\<close> and the
  fractions \<open>U+00BC\<close> to \<open>U+00BE\<close>. Characters above the block are left unclassified.
\<close>

definition latin1 :: ucd where
  "latin1 =
     \<lparr> space = (\<lambda>c. (9 \<le> c \<and> c \<le> 13) \<or> (28 \<le> c \<and> c \<le> 32) \<or> c = 133 \<or> c = 160),
       numeric_type = (\<lambda>c. if 48 \<le> c \<and> c \<le> 57 then Decimal (c - 48)
                            else if c = 178 \<or> c = 179 \<or> c = 185 then Digit
                            else if 188 \<le> c \<and> c \<le> 190 then Numeric
                            else NotNumeric) \<rparr>"

text \<open>\<^verbatim>\<open>str.strip()\<close>\<close>

definition py_strip :: "ucd \<Rightarrow> nat list \<Rightarrow> nat list" where
  "py_strip U s = rev (dropWhile (space U) (rev (dropWhile (space U) s)))"

text \<open>\<^verbatim>\<open>str.isnumeric()\<close>: at least one character, all of them numeric.\<close>

definition isnumeric :: "ucd \<Rightarrow> nat list \<Rightarrow> bool" where
  "isnumeric U s = (s \<noteq> [] \<and> list_all (\<lambda>c. numeric_type U c \<noteq> NotNumeric) s)"

text \<open>
  \<^verbatim>\<open>float(s)\<close> on a text made of numeric characters, which is where the source calls it
  (after \<^verbatim>\<open>isnumeric()\<close>): the decimal digits are read as a number in base ten; any other
  character makes \<^verbatim>\<open>float\<close> raise \<^verbatim>\<open>ValueError\<close>. The number is the exact one: the
  rounding of \<^verbatim>\<open>float\<close> to 53 bits, which begins with codes of 17 digits, and its
  overflow to infinity, from about 309 digits, are outside the model.
\<close>

fun digits_of :: "ucd \<Rightarrow> nat list \<Rightarrow> nat list option" where
  "digits_of U [] = Some []"
| "digits_of U (c # cs) =
     (case numeric_type U c of
        Decimal d \<Rightarrow> map_option ((#) d) (digits_of U cs)
      | _ \<Rightarrow> None)"

definition py_float :: "ucd \<Rightarrow> nat list \<Rightarrow> exn + real" where
  "py_float U s =
     (case digits_of U s of
        None \<Rightarrow> Inl ValueError
      | Some ds \<Rightarrow>
          if ds = [] then Inl ValueError
          else Inr (foldl (\<lambda>acc d. 10 * acc + real d) 0 ds))"

subsection \<open>\<^verbatim>\<open>ListenerGuitarra._loop\<close>: reading one line\<close>

text \<open>
  What the body of the loop makes of one line before it looks at the buffer: the line is
  dropped (\<^verbatim>\<open>continue\<close>), or an exception leaves the body, or a note has been built.
\<close>

datatype parsed = Dropped | Failed exn | Note NotaGuitarra

definition parse_line :: "ucd \<Rightarrow> string \<Rightarrow> parsed" where
  "parse_line U linha_bytes =
     (case decode linha_bytes of
        None \<Rightarrow> Dropped
      | Some linha \<Rightarrow>
          let linha_lista = map (py_strip U) (py_split 59 linha)
          in if length linha_lista \<noteq> 2 then Dropped
             else
               let identificador_raw = linha_lista ! 0
               in if \<not> isnumeric U identificador_raw then Dropped
                  else
                    (case py_float U identificador_raw of
                       Inl err \<Rightarrow> Failed err
                     | Inr c \<Rightarrow>
                         let pressionado_raw = linha_lista ! 1
                         in if pressionado_raw \<noteq> [49] \<and> pressionado_raw \<noteq> [48] then Dropped
                            else Note \<lparr> codigo = c, on = (take 1 pressionado_raw = [49]) \<rparr>))"

subsection \<open>\<^verbatim>\<open>ListenerGuitarra._loop\<close>: dispatch and buffer\<close>

text \<open>
  A registered callable runs on the polling thread: \<open>invoke c nota w\<close> is what calling \<open>c\<close>
  with \<open>nota\<close> does to its surroundings \<open>w\<close>, with the exception it raises, if any.
  \<open>dispatch\<close> is the \<^verbatim>\<open>for c in self._callbacks: c(ret)\<close> of the source: an exception
  ends it. It returns the calls it made, in order. A callable is taken to leave the
  listener, and the note it is given, as they are.
\<close>

fun dispatch ::
  "('cb \<Rightarrow> NotaGuitarra \<Rightarrow> 'w \<Rightarrow> exn option \<times> 'w) \<Rightarrow> 'cb list \<Rightarrow> NotaGuitarra \<Rightarrow> 'w
     \<Rightarrow> exn option \<times> 'w \<times> ('cb \<times> NotaGuitarra) list" where
  "dispatch invoke [] ret w = (None, w, [])"
| "dispatch invoke (c # cs) ret w =
     (case invoke c ret w of
        (Some err, w1) \<Rightarrow> (Some err, w1, [(c, ret)])
      | (None, w1) \<Rightarrow>
          (case dispatch invoke cs ret w1 of
             (x, w2, called) \<Rightarrow> (x, w2, (c, ret) # called)))"

text \<open>One iteration of the body of the \<^verbatim>\<open>while\<close> loop, after \<^verbatim>\<open>readline()\<close> returned.\<close>

record ('cb, 'w) iteration =
  raised :: "exn option"
  listener_after :: "'cb ListenerGuitarra"
  world_after :: 'w
  calls :: "('cb \<times> NotaGuitarra) list"

definition edge :: "'cb ListenerGuitarra \<Rightarrow> NotaGuitarra \<Rightarrow> NotaGuitarra \<Rightarrow> bool" where
  "edge l buf ret = (\<bar>codigo buf - codigo ret\<bar> < lrange l \<and> on buf \<noteq> on ret)"

definition loop_body ::
  "ucd \<Rightarrow> ('cb \<Rightarrow> NotaGuitarra \<Rightarrow> 'w \<Rightarrow> exn option \<times> 'w) \<Rightarrow> 'cb ListenerGuitarra \<Rightarrow> 'w
     \<Rightarrow> string \<Rightarrow> ('cb, 'w) iteration" where
  "loop_body U invoke l w linha_bytes =
     (case parse_line U linha_bytes of
        Dropped \<Rightarrow> \<lparr> raised = None, listener_after = l, world_after = w, calls = [] \<rparr>
      | Failed err \<Rightarrow> \<lparr> raised = Some err, listener_after = l, world_after = w, calls = [] \<rparr>
      | Note ret \<Rightarrow>
          (case (case nota_buffer l of
                   None \<Rightarrow> (None, w, [])
                 | Some buf \<Rightarrow>
                     if edge l buf ret then dispatch invoke (callbacks l) ret w
                     else (None, w, [])) of
             (Some err, w1, called) \<Rightarrow>
               \<lparr> raised = Some err, listener_after = l, world_after = w1, calls = called \<rparr>
           | (None, w1, called) \<Rightarrow>
               \<lparr> raised = None, listener_after = l\<lparr>nota_buffer := Some ret\<rparr>,
                 world_after = w1, calls = called \<rparr>))"

text \<open>
  The loop over the lines that the port delivers. The condition is read before each line;
  a port that was never set has no \<^verbatim>\<open>is_open\<close>. The flag and the ports are written by
  other threads only, so they are the same at every iteration here. When the lines run
  out, the thread is waiting in \<^verbatim>\<open>readline()\<close>.
\<close>

fun loop ::
  "ucd \<Rightarrow> ('cb \<Rightarrow> NotaGuitarra \<Rightarrow> 'w \<Rightarrow> exn option \<times> 'w) \<Rightarrow> env \<Rightarrow> 'cb ListenerGuitarra \<Rightarrow> 'w
     \<Rightarrow> string list \<Rightarrow> ('cb, 'w) iteration" where
  "loop U invoke e l w [] =
     (if running l \<and> input_port l = None
      then \<lparr> raised = Some AttributeError, listener_after = l, world_after = w, calls = [] \<rparr>
      else \<lparr> raised = None, listener_after = l, world_after = w, calls = [] \<rparr>)"
| "loop U invoke e l w (linha_bytes # rest) =
     (if \<not> running l
      then \<lparr> raised = None, listener_after = l, world_after = w, calls = [] \<rparr>
      else
        (case input_port l of
           None \<Rightarrow> \<lparr> raised = Some AttributeError, listener_after = l, world_after = w,
                     calls = [] \<rparr>
         | Some port \<Rightarrow>
             if \<not> is_open e port
             then \<lparr> raised = None, listener_after = l, world_after = w, calls = [] \<rparr>
             else
               let it = loop_body U invoke l w linha_bytes
               in if raised it \<noteq> None then it
                  else
                    let more = loop U invoke e (listener_after it) (world_after it) rest
                    in more\<lparr>calls := calls it @ calls more\<rparr>))"

subsection \<open>Python: \<^verbatim>\<open>int()\<close> and dictionaries\<close>

text \<open>
  \<^verbatim>\<open>int(x)\<close>: an \<^verbatim>\<open>int\<close> is returned as it is, a \<^verbatim>\<open>float\<close> is truncated towards zero,
  \<^verbatim>\<open>None\<close> raises \<^verbatim>\<open>TypeError\<close>, a text is read as a decimal literal (white space
  around it, an optional sign, digits with single underscores between them) or raises
  \<^verbatim>\<open>ValueError\<close>. The white space that \<^verbatim>\<open>int()\<close> skips is that of \<^verbatim>\<open>str.isspace\<close>
  without the separators \<open>U+001C\<close> to \<open>U+001F\<close>. The limit of recent interpreters on
  the number of digits is not modelled.
\<close>

definition int_space :: "ucd \<Rightarrow> nat \<Rightarrow> bool" where
  "int_space U c = (space U c \<and> \<not> (28 \<le> c \<and> c \<le> 31))"

fun int_digits :: "ucd \<Rightarrow> bool \<Rightarrow> nat list \<Rightarrow> nat list option" where
  "int_digits U after_digit [] = (if after_digit then Some [] else None)"
| "int_digits U after_digit (c # cs) =
     (case numeric_type U c of
        Decimal d \<Rightarrow> map_option ((#) d) (int_digits U True cs)
      | _ \<Rightarrow> if c = 95 \<and> after_digit then int_digits U False cs else None)"

definition int_of_text :: "ucd \<Rightarrow> nat list \<Rightarrow> exn + int" where
  "int_of_text U s =
     (let t = rev (dropWhile (int_space U) (rev (dropWhile (int_space U) s)));
          neg = (take 1 t = [45]);
          body = (if take 1 t = [45] \<or> take 1 t = [43] then drop 1 t else t)
      in case int_digits U False body of
           None \<Rightarrow> Inl ValueError
         | Some ds \<Rightarrow>
             let n = foldl (\<lambda>acc d. 10 * acc + int d) 0 ds
             in Inr (if neg then - n else n))"

fun py_int :: "ucd \<Rightarrow> pyval \<Rightarrow> exn + int" where
  "py_int U (PyInt i) = Inr i"
| "py_int U (PyFloat x) = Inr (if 0 \<le> x then \<lfloor>x\<rfloor> else \<lceil>x\<rceil>)"
| "py_int U (PyStr s) = int_of_text U s"
| "py_int U PyNone = Inl TypeError"

text \<open>
  Equality of keys as a dictionary sees it: \<^verbatim>\<open>1 == 1.0\<close>, and they hash alike.
\<close>

fun py_eq :: "pyval \<Rightarrow> pyval \<Rightarrow> bool" where
  "py_eq (PyInt i) (PyInt j) = (i = j)"
| "py_eq (PyInt i) (PyFloat y) = (real_of_int i = y)"
| "py_eq (PyFloat x) (PyInt j) = (x = real_of_int j)"
| "py_eq (PyFloat x) (PyFloat y) = (x = y)"
| "py_eq (PyStr s) (PyStr t) = (s = t)"
| "py_eq PyNone PyNone = True"
| "py_eq a b = False"

text \<open>
  A dictionary keeps its entries in insertion order. \<^verbatim>\<open>d[k]\<close> raises \<^verbatim>\<open>KeyError\<close> for an
  absent key; \<^verbatim>\<open>d[k] = v\<close> replaces the value of an equal key or adds an entry at the end.
\<close>

fun dict_get :: "(pyval \<times> 'v) list \<Rightarrow> pyval \<Rightarrow> exn + 'v" where
  "dict_get [] k = Inl KeyError"
| "dict_get ((k', v) # d) k = (if py_eq k' k then Inr v else dict_get d k)"

fun dict_set :: "(pyval \<times> 'v) list \<Rightarrow> pyval \<Rightarrow> 'v \<Rightarrow> (pyval \<times> 'v) list" where
  "dict_set [] k v = [(k, v)]"
| "dict_set ((k', v') # d) k v =
     (if py_eq k' k then (k', v) # d else (k', v') # dict_set d k v)"

subsection \<open>\<^verbatim>\<open>InterfaceGuitarra\<close>\<close>

text \<open>
  \<^verbatim>\<open>NotaProcessada(nome=..., on=...)\<close> is what the callback of the user receives. That
  callback is the consumer of the game; the notes it is called with are recorded in order.
\<close>

record NotaProcessada =
  nome :: string
  p_on :: bool

text \<open>
  The one callable that the interface registers with its listener,
  \<^verbatim>\<open>lambda x: self._callback(x)\<close>. It reads the interface when it is called.
\<close>

datatype registered = Lambda_callback

record InterfaceGuitarra =
  listener :: "registered ListenerGuitarra"
  porta :: nat
  valores_dicionario :: "int list"
  dicionario :: "(pyval \<times> string) list"
  irange :: real

text \<open>
  Modelled from the spec: \<^verbatim>\<open>InterfaceBase.__init__\<close> (the module
  \<^verbatim>\<open>comunicacao/base.py\<close> is not among the sources) leaves \<^verbatim>\<open>_dicionario\<close>, the binding
  table, empty: the bindings are supplied afterwards, by one configuration call.
\<close>

definition base_init :: "(pyval \<times> string) list" where
  "base_init = []"

text \<open>
  \<^verbatim>\<open>InterfaceGuitarra.__init__\<close>: \<^verbatim>\<open>rangen\<close> must be a \<^verbatim>\<open>float\<close> in \<open>(0, 0.5]\<close>. The
  binding table \<^verbatim>\<open>_dicionario\<close> is the one that the constructor of the base class leaves;
  it is the parameter \<open>d0\<close>.
\<close>

definition new_interface ::
  "(pyval \<times> string) list \<Rightarrow> nat \<Rightarrow> pyval \<Rightarrow> exn + InterfaceGuitarra" where
  "new_interface d0 serial_port rangen =
     (case rangen of
        PyFloat r \<Rightarrow>
          if 0 < r \<and> r \<le> 0.5
          then Inr \<lparr> listener = new_listener, porta = serial_port, valores_dicionario = [],
                     dicionario = d0, irange = r \<rparr>
          else Inl RuntimeError
      | _ \<Rightarrow> Inl RuntimeError)"

text \<open>
  Modelled from the spec: \<^verbatim>\<open>InterfaceBase.atribui_notas(**kwargs)\<close> (in the same missing
  module) binds each logical note to its code; \<^verbatim>\<open>InterfaceGuitarra\<close> reads the table back
  by code (\<^verbatim>\<open>int(key)\<close> over its keys, \<^verbatim>\<open>self._dicionario[valor]\<close> for the name), so each
  keyword argument \<open>name = code\<close> is stored as the entry \<open>code \<mapsto> name\<close>.
\<close>

fun base_atribui_notas ::
  "(pyval \<times> string) list \<Rightarrow> (string \<times> pyval) list \<Rightarrow> (pyval \<times> string) list" where
  "base_atribui_notas d [] = d"
| "base_atribui_notas d ((name, code) # kwargs) = base_atribui_notas (dict_set d code name) kwargs"

text \<open>
  \<^verbatim>\<open>InterfaceGuitarra.atribui_notas\<close>: the call of the method of the base class, which is
  the parameter \<open>super_atribui_notas\<close> (from the table and the keyword arguments to the
  new table), then the loop over the keys of the table. In the loop \<^verbatim>\<open>ValueError\<close>
  becomes \<^verbatim>\<open>RuntimeError\<close>, any other exception of \<^verbatim>\<open>int()\<close> leaves as it is; the
  values appended before the exception stay in the list.
\<close>

fun append_valores :: "ucd \<Rightarrow> int list \<Rightarrow> pyval list \<Rightarrow> exn option \<times> int list" where
  "append_valores U vs [] = (None, vs)"
| "append_valores U vs (key # keys) =
     (case py_int U key of
        Inl err \<Rightarrow> (Some (if err = ValueError then RuntimeError else err), vs)
      | Inr i \<Rightarrow> append_valores U (vs @ [i]) keys)"

definition atribui_notas ::
  "ucd \<Rightarrow> ((pyval \<times> string) list \<Rightarrow> (string \<times> pyval) list \<Rightarrow> (pyval \<times> string) list)
     \<Rightarrow> InterfaceGuitarra \<Rightarrow> (string \<times> pyval) list \<Rightarrow> exn option \<times> InterfaceGuitarra" where
  "atribui_notas U super_atribui_notas self kwargs =
     (let d = super_atribui_notas (dicionario self) kwargs
      in case append_valores U (valores_dicionario self) (map fst d) of
           (x, vs) \<Rightarrow> (x, self\<lparr>dicionario := d, valores_dicionario := vs\<rparr>))"

text \<open>
  \<^verbatim>\<open>InterfaceGuitarra._callback\<close>: the scan over \<^verbatim>\<open>_valores_dicionario\<close>. The result is
  the exception that ended the scan, if any, and the notes handed to the callback of the
  user up to there.
\<close>

fun resolve ::
  "(pyval \<times> string) list \<Rightarrow> real \<Rightarrow> NotaGuitarra \<Rightarrow> int list \<Rightarrow> exn option \<times> NotaProcessada list"
  where
  "resolve d r nota [] = (None, [])"
| "resolve d r nota (valor # valores) =
     (if \<bar>codigo nota - real_of_int valor\<bar> \<le> r
      then (case dict_get d (PyInt valor) of
              Inl err \<Rightarrow> (Some err, [])
            | Inr nm \<Rightarrow>
                (case resolve d r nota valores of
                   (x, out) \<Rightarrow> (x, \<lparr> nome = nm, p_on = on nota \<rparr> # out)))
      else resolve d r nota valores)"

definition callback :: "InterfaceGuitarra \<Rightarrow> NotaGuitarra \<Rightarrow> exn option \<times> NotaProcessada list" where
  "callback self nota = resolve (dicionario self) (irange self) nota (valores_dicionario self)"

text \<open>
  What a call of the registered lambda does on the polling thread: the notes of
  \<open>callback\<close> reach the user, after those received before.
\<close>

definition invoke_interface ::
  "InterfaceGuitarra \<Rightarrow> registered \<Rightarrow> NotaGuitarra \<Rightarrow> NotaProcessada list
     \<Rightarrow> exn option \<times> NotaProcessada list" where
  "invoke_interface self c nota received =
     (case callback self nota of (x, out) \<Rightarrow> (x, received @ out))"

text \<open>\<^verbatim>\<open>InterfaceGuitarra.start\<close> and \<^verbatim>\<open>InterfaceGuitarra.stop\<close>\<close>

definition interface_start ::
  "InterfaceGuitarra \<Rightarrow> env \<Rightarrow> exn option \<times> InterfaceGuitarra \<times> env" where
  "interface_start self e =
     (let l1 = callback_setter (listener self) Lambda_callback
      in case input_port_setter l1 e (porta self) of
           (Some err, l2, e2) \<Rightarrow> (Some err, self\<lparr>listener := l2\<rparr>, e2)
         | (None, l2, e2) \<Rightarrow>
             (case start l2 e2 of (l3, e3) \<Rightarrow> (None, self\<lparr>listener := l3\<rparr>, e3)))"

definition interface_stop :: "InterfaceGuitarra \<Rightarrow> env \<Rightarrow> InterfaceGuitarra \<times> env" where
  "interface_stop self e = (case stop (listener self) e of (l, e') \<Rightarrow> (self\<lparr>listener := l\<rparr>, e'))"


subsection \<open>Sequences of lifecycle calls\<close>

text \<open>
  The calls a client can make on a listener, and the end by itself of the polling thread
  that the listener holds (the loop left because the port was closed, or an exception).
\<close>

datatype lifecycle = Start | Stop | Close | Thread_ends

fun step :: "'cb ListenerGuitarra \<times> env \<Rightarrow> lifecycle \<Rightarrow> 'cb ListenerGuitarra \<times> env" where
  "step (l, e) Start = start l e"
| "step (l, e) Stop = stop l e"
| "step (l, e) Close = (case close l e of (x, l', e') \<Rightarrow> (l', e'))"
| "step (l, e) Thread_ends =
     (case thread l of
        None \<Rightarrow> (l, e)
      | Some t \<Rightarrow> (l, e\<lparr>alive := removeAll t (alive e)\<rparr>))"

definition run :: "'cb ListenerGuitarra \<times> env \<Rightarrow> lifecycle list \<Rightarrow> 'cb ListenerGuitarra \<times> env" where
  "run s ops = foldl step s ops"

text \<open>
  What holds of a listener and its threads between two lifecycle calls: at most the thread
  that the listener holds is alive, and a running listener holds a thread.
\<close>

definition lifecycle_inv :: "'cb ListenerGuitarra \<times> env \<Rightarrow> bool" where
  "lifecycle_inv s =
     (case s of (l, e) \<Rightarrow>
        (alive e = [] \<or> (\<exists>t. alive e = [t] \<and> thread l = Some t))
        \<and> (running l \<longrightarrow> thread l \<noteq> None))"

subsection \<open>Predicates used in the statements\<close>

text \<open>
  The shape check of the loop on one line, as the source makes it: the bytes decode, there
  are two fields, the first is \<^verbatim>\<open>isnumeric()\<close>, the second is \<^verbatim>\<open>'1'\<close> or \<^verbatim>\<open>'0'\<close>.
\<close>

definition shape_check :: "ucd \<Rightarrow> string \<Rightarrow> bool" where
  "shape_check U linha_bytes =
     (case decode linha_bytes of
        None \<Rightarrow> False
      | Some linha \<Rightarrow>
          (case map (py_strip U) (py_split 59 linha) of
             [identificador_raw, pressionado_raw] \<Rightarrow>
               isnumeric U identificador_raw
               \<and> (pressionado_raw = [49] \<or> pressionado_raw = [48])
           | _ \<Rightarrow> False))"

text \<open>
  Callbacks called one after the other with the same note: \<open>effects\<close> is what they leave
  of the surroundings, each called once, in the order of the list; \<open>quiet\<close> says that
  none of them raises when they are so called.
\<close>

definition effects ::
  "('cb \<Rightarrow> NotaGuitarra \<Rightarrow> 'w \<Rightarrow> exn option \<times> 'w) \<Rightarrow> 'cb list \<Rightarrow> NotaGuitarra \<Rightarrow> 'w \<Rightarrow> 'w" where
  "effects invoke cs ret w = foldl (\<lambda>v c. snd (invoke c ret v)) w cs"

fun quiet ::
  "('cb \<Rightarrow> NotaGuitarra \<Rightarrow> 'w \<Rightarrow> exn option \<times> 'w) \<Rightarrow> 'cb list \<Rightarrow> NotaGuitarra \<Rightarrow> 'w \<Rightarrow> bool" where
  "quiet invoke [] ret w = True"
| "quiet invoke (c # cs) ret w =
     (fst (invoke c ret w) = None \<and> quiet invoke cs ret (snd (invoke c ret w)))"


text \<open>A binding code that is a whole number, and the number a numeric code stands for.\<close>

fun whole :: "pyval \<Rightarrow> bool" where
  "whole (PyInt i) = True"
| "whole (PyFloat x) = (x = real_of_int \<lfloor>x\<rfloor>)"
| "whole v = False"

fun keyval :: "pyval \<Rightarrow> real" where
  "keyval (PyInt i) = real_of_int i"
| "keyval (PyFloat x) = x"
| "keyval v = 0"

fun is_number :: "pyval \<Rightarrow> bool" where
  "is_number (PyInt i) = True"
| "is_number (PyFloat x) = True"
| "is_number v = False"

text \<open>\<^verbatim>\<open>int(key)\<close> on a numeric code, as a total function.\<close>

fun trunc_key :: "pyval \<Rightarrow> int" where
  "trunc_key (PyInt i) = i"
| "trunc_key (PyFloat x) = (if 0 \<le> x then \<lfloor>x\<rfloor> else \<lceil>x\<rceil>)"
| "trunc_key v = 0"

text \<open>
  A binding table of whole-number codes, no two of them equal: what \<^verbatim>\<open>atribui_notas\<close>
  builds from whole-number codes.
\<close>

definition whole_table :: "(pyval \<times> string) list \<Rightarrow> bool" where
  "whole_table d =
     (list_all (\<lambda>(k, nm). whole k) d \<and> distinct (map (\<lambda>(k, nm). keyval k) d))"

text \<open>
  The notes the resolver is expected to hand out for a sample: one for each entry of the
  binding table whose code is within the tolerance of the code of the sample, in the order
  of the table, with the name of the entry and the \<open>on\<close> of the sample.
\<close>

definition notes_within :: "(pyval \<times> string) list \<Rightarrow> real \<Rightarrow> NotaGuitarra \<Rightarrow> NotaProcessada list"
  where
  "notes_within d r nota =
     map (\<lambda>(k, nm). \<lparr> nome = nm, p_on = on nota \<rparr>)
       (filter (\<lambda>(k, nm). \<bar>codigo nota - keyval k\<bar> \<le> r) d)"

text \<open>
  The bindings that \<^verbatim>\<open>Jogo._iniciar_guitarra\<close> (\<^verbatim>\<open>jogo/core.py\<close>) gives to
  \<^verbatim>\<open>atribui_notas\<close>.
\<close>

definition guitarra_kwargs :: "(string \<times> pyval) list" where
  "guitarra_kwargs =
     [(''nota1'', PyFloat 1), (''nota2'', PyFloat 2), (''nota3'', PyFloat 3),
      (''nota4'', PyFloat 4), (''nota5'', PyFloat 5)]"

text \<open>
  The interface that \<^verbatim>\<open>InterfaceGuitarra(serial_port, callback, 0.5)\<close> builds, for the
  port of reference \<open>0\<close> and the empty table of the base class.
\<close>

definition interface_nova :: InterfaceGuitarra where
  "interface_nova =
     \<lparr> listener = new_listener, porta = 0, valores_dicionario = [], dicionario = base_init,
       irange = 0.5 \<rparr>"

section \<open>Lifecycle of the listener\<close>

lemma lifecycle_inv_step: "lifecycle_inv s \<Longrightarrow> lifecycle_inv (step s x)"
  by (cases s; cases x)
     (auto simp: lifecycle_inv_def start_def stop_def close_def split: option.splits)

lemma lifecycle_inv_run: "lifecycle_inv s \<Longrightarrow> lifecycle_inv (run s ops)"
  unfolding run_def by (induction ops arbitrary: s) (simp_all add: lifecycle_inv_step)

lemma lifecycle_inv_new: "lifecycle_inv (new_listener, new_env dev)"
  by (simp add: lifecycle_inv_def new_listener_def new_env_def)

lemma lifecycle_inv_alive: "lifecycle_inv s \<Longrightarrow> length (alive (snd s)) \<le> 1"
  by (cases s) (auto simp: lifecycle_inv_def)

text \<open>
  C1. \<^verbatim>\<open>stop()\<close> on a running listener should clear the running flag and join the
  polling thread, as \<^verbatim>\<open>close()\<close> does. In the source \<^verbatim>\<open>stop()\<close> only takes and releases
  the lock: after \<^verbatim>\<open>start()\<close> and \<^verbatim>\<open>stop()\<close> the state is the one after \<^verbatim>\<open>start()\<close>
  alone, the flag is set, the thread is held and alive. After \<^verbatim>\<open>start()\<close> and
  \<^verbatim>\<open>close()\<close> the flag is clear and no thread is alive.
\<close>

theorem stop_leaves_thread_running:
  "run (new_listener :: registered ListenerGuitarra, new_env (\<lambda>p. True)) [Start, Stop]
     = run (new_listener, new_env (\<lambda>p. True)) [Start]
   \<and> running (fst (run (new_listener :: registered ListenerGuitarra, new_env (\<lambda>p. True))
                      [Start, Stop]))
   \<and> thread (fst (run (new_listener :: registered ListenerGuitarra, new_env (\<lambda>p. True))
                     [Start, Stop])) = Some 0
   \<and> alive (snd (run (new_listener :: registered ListenerGuitarra, new_env (\<lambda>p. True))
                    [Start, Stop])) = [0]
   \<and> \<not> running (fst (run (new_listener :: registered ListenerGuitarra, new_env (\<lambda>p. True))
                        [Start, Close]))
   \<and> alive (snd (run (new_listener :: registered ListenerGuitarra, new_env (\<lambda>p. True))
                    [Start, Close])) = []"
  by (simp add: run_def start_def stop_def close_def new_listener_def new_env_def)

text \<open>
  C8. \<^verbatim>\<open>start()\<close> on a running listener changes nothing; two calls of \<^verbatim>\<open>start()\<close> on a
  new listener leave exactly one polling thread alive, the state of a single call; and
  after any sequence of \<^verbatim>\<open>start()\<close>, \<^verbatim>\<open>stop()\<close>, \<^verbatim>\<open>close()\<close> and ends of the polling
  thread, at most one polling thread of the listener is alive.
\<close>

theorem start_guard_one_thread:
  fixes l :: "'cb ListenerGuitarra"
  shows "(running l \<longrightarrow> start l e = (l, e))
   \<and> run (new_listener :: 'cb ListenerGuitarra, new_env dev) [Start, Start]
       = run (new_listener, new_env dev) [Start]
   \<and> alive (snd (run (new_listener :: 'cb ListenerGuitarra, new_env dev) [Start, Start])) = [0]
   \<and> length (alive (snd (run (new_listener :: 'cb ListenerGuitarra, new_env dev) ops))) \<le> 1"
proof -
  have a: "running l \<longrightarrow> start l e = (l, e)"
    by (simp add: start_def)
  have b: "run (new_listener :: 'cb ListenerGuitarra, new_env dev) [Start, Start]
             = run (new_listener, new_env dev) [Start]"
    by (simp add: run_def start_def new_listener_def new_env_def)
  have c: "alive (snd (run (new_listener :: 'cb ListenerGuitarra, new_env dev) [Start, Start])) = [0]"
    by (simp add: run_def start_def new_listener_def new_env_def)
  have d: "length (alive (snd (run (new_listener :: 'cb ListenerGuitarra, new_env dev) ops))) \<le> 1"
    by (rule lifecycle_inv_alive [OF lifecycle_inv_run [OF lifecycle_inv_new]])
  from a b c d show ?thesis by blast
qed

theorem start_guard_one_thread_witness:
  "running (fst (start (new_listener :: registered ListenerGuitarra) (new_env (\<lambda>p. True))))
   \<and> start (fst (start (new_listener :: registered ListenerGuitarra) (new_env (\<lambda>p. True))))
            (snd (start (new_listener :: registered ListenerGuitarra) (new_env (\<lambda>p. True))))
       = start new_listener (new_env (\<lambda>p. True))
   \<and> alive (snd (run (new_listener :: registered ListenerGuitarra, new_env (\<lambda>p. True))
                    [Start, Start])) = [0]
   \<and> length (alive (snd (run (new_listener :: registered ListenerGuitarra, new_env (\<lambda>p. True))
                            [Start, Close, Start, Thread_ends, Start, Stop]))) \<le> 1"
proof -
  have r: "running (fst (start (new_listener :: registered ListenerGuitarra)
                           (new_env (\<lambda>p. True))))"
    by (simp add: start_def new_listener_def)
  have s: "(fst (start (new_listener :: registered ListenerGuitarra) (new_env (\<lambda>p. True))),
            snd (start (new_listener :: registered ListenerGuitarra) (new_env (\<lambda>p. True))))
             = start new_listener (new_env (\<lambda>p. True))"
    by simp
  from r start_guard_one_thread
         [of "fst (start (new_listener :: registered ListenerGuitarra) (new_env (\<lambda>p. True)))"
             "snd (start (new_listener :: registered ListenerGuitarra) (new_env (\<lambda>p. True)))"
             "\<lambda>p. True" "[Start, Close, Start, Thread_ends, Start, Stop]"]
  show ?thesis unfolding s by blast
qed

section \<open>The polling loop\<close>

subsection \<open>Some lines\<close>

lemmas parse_simps =
  parse_line_def decode_def latin1_def py_strip_def isnumeric_def py_float_def cont_byte_def
  Let_def

lemma parse_1_1: "parse_line latin1 ''1;1'' = Note \<lparr> codigo = 1, on = True \<rparr>"
  by (simp add: parse_simps)

lemma parse_1_0: "parse_line latin1 ''1;0'' = Note \<lparr> codigo = 1, on = False \<rparr>"
  by (simp add: parse_simps)

lemma parse_9_1: "parse_line latin1 ''9;1'' = Note \<lparr> codigo = 9, on = True \<rparr>"
  by (simp add: parse_simps)

lemma parse_half:
  "parse_line latin1 [CHR 0xC2, CHR 0xBD, CHR '';'', CHR ''1'', CHR 0x0A] = Failed ValueError"
  by (simp add: parse_simps)


lemma noise_no_shape: "\<not> shape_check latin1 ''x;1''"
  by (simp add: shape_check_def decode_def latin1_def py_strip_def isnumeric_def)

subsection \<open>Dispatch\<close>

lemma dispatch_prefix:
  "dispatch invoke cs ret w = (x, w', called) \<Longrightarrow>
     called = map (\<lambda>c. (c, ret)) (take (length called) cs)"
proof (induction cs arbitrary: w x w' called)
  case Nil
  then show ?case by simp
next
  case (Cons c cs)
  show ?case
  proof (cases "invoke c ret w")
    case (Pair r w1)
    show ?thesis
    proof (cases r)
      case None
      obtain x2 w2 called2 where d: "dispatch invoke cs ret w1 = (x2, w2, called2)"
        by (cases "dispatch invoke cs ret w1") auto
      from Cons.IH [OF d] Cons.prems Pair None d show ?thesis by auto
    next
      case (Some err)
      with Cons.prems Pair show ?thesis by auto
    qed
  qed
qed

lemma effects_Cons:
  "effects invoke (c # cs) ret w = effects invoke cs ret (snd (invoke c ret w))"
  by (simp add: effects_def)

lemma effects_Nil: "effects invoke [] ret w = w"
  by (simp add: effects_def)



lemma quiet_or_raises:
  "quiet invoke cs ret w
   \<or> (\<exists>pre c post err. cs = pre @ c # post \<and> quiet invoke pre ret w
        \<and> fst (invoke c ret (effects invoke pre ret w)) = Some err)"
proof (induction cs arbitrary: w)
  case Nil
  show ?case by simp
next
  case (Cons a cs)
  show ?case
  proof (cases "fst (invoke a ret w)")
    case (Some err)
    then have "a # cs = [] @ a # cs \<and> quiet invoke [] ret w
        \<and> fst (invoke a ret (effects invoke [] ret w)) = Some err"
      by (simp add: effects_Nil)
    then show ?thesis by blast
  next
    case None
    from Cons.IH [of "snd (invoke a ret w)"] show ?thesis
    proof
      assume "quiet invoke cs ret (snd (invoke a ret w))"
      with None show ?thesis by simp
    next
      assume "\<exists>pre c post err. cs = pre @ c # post \<and> quiet invoke pre ret (snd (invoke a ret w))
        \<and> fst (invoke c ret (effects invoke pre ret (snd (invoke a ret w)))) = Some err"
      then obtain pre c post err where "cs = pre @ c # post"
        and "quiet invoke pre ret (snd (invoke a ret w))"
        and "fst (invoke c ret (effects invoke pre ret (snd (invoke a ret w)))) = Some err"
        by blast
      with None have "a # cs = (a # pre) @ c # post \<and> quiet invoke (a # pre) ret w
        \<and> fst (invoke c ret (effects invoke (a # pre) ret w)) = Some err"
        by (simp add: effects_Cons)
      then show ?thesis by blast
    qed
  qed
qed

subsection \<open>One iteration\<close>

lemma loop_body_edge:
  assumes "parse_line U linha = Note cur"
      and "nota_buffer l = Some prev"
      and "edge l prev cur"
      and "dispatch invoke (callbacks l) cur w = (x, w', called)"
  shows "loop_body U invoke l w linha =
           \<lparr> raised = x,
             listener_after = (if x = None then l\<lparr>nota_buffer := Some cur\<rparr> else l),
             world_after = w', calls = called \<rparr>"
  using assms by (cases x) (simp_all add: loop_body_def)



lemma loop_body_not_note:
  assumes "\<forall>n. parse_line U linha \<noteq> Note n"
  shows "listener_after (loop_body U invoke l w linha) = l
         \<and> world_after (loop_body U invoke l w linha) = w
         \<and> calls (loop_body U invoke l w linha) = []"
  using assms by (cases "parse_line U linha") (simp_all add: loop_body_def)

lemma two_fields: "length xs = 2 \<Longrightarrow> xs = [xs ! 0, xs ! 1]"
  by (cases xs; cases "tl xs") auto

lemma note_shape_check: "parse_line U linha = Note n \<Longrightarrow> shape_check U linha"
proof -
  assume p: "parse_line U linha = Note n"
  then obtain s where d: "decode linha = Some s"
    by (cases "decode linha") (simp_all add: parse_line_def)
  define fs where "fs = map (py_strip U) (py_split 59 s)"
  have len: "length fs = 2"
    using p d by (auto simp: parse_line_def Let_def fs_def split: if_splits)
  then have fs2: "fs = [fs ! 0, fs ! 1]"
    by (rule two_fields)
  have num: "isnumeric U (fs ! 0)"
    using p d len by (auto simp: parse_line_def Let_def fs_def split: if_splits)
  have bin: "fs ! 1 = [49] \<or> fs ! 1 = [48]"
    using p d len num
    by (auto simp: parse_line_def Let_def fs_def split: if_splits sum.splits)
  have "(case fs of
           [identificador_raw, pressionado_raw] \<Rightarrow>
             isnumeric U identificador_raw
             \<and> (pressionado_raw = [49] \<or> pressionado_raw = [48])
         | _ \<Rightarrow> False)"
    using num bin by (subst fs2) simp
  then show ?thesis
    using d by (simp add: shape_check_def fs_def)
qed



subsection \<open>The loop on the lines of the port\<close>






subsection \<open>Edges\<close>






subsection \<open>Lines that are not samples\<close>

text \<open>
  C6. A line that fails the shape check (it does not decode, or has not two fields, or its
  first field is not numeric, or its second is neither \<^verbatim>\<open>'1'\<close> nor \<^verbatim>\<open>'0'\<close>) leaves the
  listener, its buffer included, as it was, and no callback is called.
\<close>

theorem noise_line_frame:
  assumes "\<not> shape_check U linha"
  shows "listener_after (loop_body U invoke l w linha) = l
         \<and> nota_buffer (listener_after (loop_body U invoke l w linha)) = nota_buffer l
         \<and> calls (loop_body U invoke l w linha) = []
         \<and> world_after (loop_body U invoke l w linha) = w"
proof -
  have "\<forall>n. parse_line U linha \<noteq> Note n"
    using assms note_shape_check by blast
  then show ?thesis
    by (simp add: loop_body_not_note)
qed

theorem noise_line_frame_witness:
  "\<not> shape_check latin1 ''x;1''
   \<and> listener_after (loop_body latin1 (\<lambda>c nota w. (None, c # w))
            ((new_listener :: nat ListenerGuitarra)
               \<lparr>callbacks := [0, 1], nota_buffer := Some \<lparr> codigo = 1, on = False \<rparr>\<rparr>)
            [] ''x;1'')
       = (new_listener :: nat ListenerGuitarra)
               \<lparr>callbacks := [0, 1], nota_buffer := Some \<lparr> codigo = 1, on = False \<rparr>\<rparr>
   \<and> calls (loop_body latin1 (\<lambda>c nota w. (None, c # w))
            ((new_listener :: nat ListenerGuitarra)
               \<lparr>callbacks := [0, 1], nota_buffer := Some \<lparr> codigo = 1, on = False \<rparr>\<rparr>)
            [] ''x;1'') = []"
  using noise_no_shape noise_line_frame
    [of latin1 "''x;1''" "\<lambda>c nota w. (None, c # w)"
        "(new_listener :: nat ListenerGuitarra)
           \<lparr>callbacks := [0, 1], nota_buffer := Some \<lparr> codigo = 1, on = False \<rparr>\<rparr>" "[]"]
  by blast

text \<open>
  C4. An iteration of the loop should drop, without raising, any line whose first field is
  not a non-negative integer literal. The bytes \<open>C2 BD 3B 31 0A\<close> are the line
  \<open>\<onehalf>;1\<close>: its first field is the character \<open>U+00BD\<close>, which \<^verbatim>\<open>isnumeric()\<close> accepts
  and \<^verbatim>\<open>float()\<close> rejects, so the iteration raises \<^verbatim>\<open>ValueError\<close>.
\<close>

theorem numeric_fraction_raises:
  "raised (loop_body latin1 invoke l w [CHR 0xC2, CHR 0xBD, CHR '';'', CHR ''1'', CHR 0x0A])
     = Some ValueError
   \<and> decode [CHR 0xC2, CHR 0xBD, CHR '';'', CHR ''1'', CHR 0x0A] = Some [189, 59, 49, 10]
   \<and> isnumeric latin1 [189]
   \<and> py_float latin1 [189] = Inl ValueError"
  by (simp add: loop_body_def parse_half)
     (simp add: decode_def cont_byte_def isnumeric_def py_float_def latin1_def)

subsection \<open>Scenarios\<close>

text \<open>
  The two scenarios of the specification, on the loop: the lines \<^verbatim>\<open>1;0\<close> and \<^verbatim>\<open>1;1\<close>
  give one event; the lines \<^verbatim>\<open>1;0\<close> and \<^verbatim>\<open>9;1\<close> give none and leave \<open>(9, on)\<close> in the
  buffer. The comparison with the tolerance is strict: with the tolerance set to \<open>0\<close> the
  lines \<^verbatim>\<open>1;0\<close> and \<^verbatim>\<open>1;1\<close>, of distance \<open>0\<close>, give no event.
\<close>

lemma scenario_edge:
  "calls (loop latin1 (\<lambda>c nota w. (None, w @ [nota]))
            (new_env (\<lambda>p. True)\<lparr>is_open := (\<lambda>p. p = 0)\<rparr>)
            ((new_listener :: nat ListenerGuitarra)
               \<lparr>input_port := Some 0, callbacks := [7], running := True, thread := Some 0\<rparr>)
            [] [''1;0'', ''1;1''])
     = [(7, \<lparr> codigo = 1, on = True \<rparr>)]"
  by (simp add: loop_body_def parse_1_0 parse_1_1 edge_def new_listener_def new_env_def)

lemma scenario_far:
  "calls (loop latin1 (\<lambda>c nota w. (None, w @ [nota]))
            (new_env (\<lambda>p. True)\<lparr>is_open := (\<lambda>p. p = 0)\<rparr>)
            ((new_listener :: nat ListenerGuitarra)
               \<lparr>input_port := Some 0, callbacks := [7], running := True, thread := Some 0\<rparr>)
            [] [''1;0'', ''9;1'']) = []
   \<and> nota_buffer (listener_after (loop latin1 (\<lambda>c nota w. (None, w @ [nota]))
            (new_env (\<lambda>p. True)\<lparr>is_open := (\<lambda>p. p = 0)\<rparr>)
            ((new_listener :: nat ListenerGuitarra)
               \<lparr>input_port := Some 0, callbacks := [7], running := True, thread := Some 0\<rparr>)
            [] [''1;0'', ''9;1''])) = Some \<lparr> codigo = 9, on = True \<rparr>"
  by (simp add: loop_body_def parse_1_0 parse_9_1 edge_def new_listener_def new_env_def)

lemma scenario_zero_tolerance:
  "calls (loop latin1 (\<lambda>c nota w. (None, w @ [nota]))
            (new_env (\<lambda>p. True)\<lparr>is_open := (\<lambda>p. p = 0)\<rparr>)
            ((range_setter (new_listener :: nat ListenerGuitarra) (PyFloat 0))
               \<lparr>input_port := Some 0, callbacks := [7], running := True, thread := Some 0\<rparr>)
            [] [''1;0'', ''1;1'']) = []"
  by (simp add: loop_body_def parse_1_0 parse_1_1 edge_def new_listener_def new_env_def)

section \<open>The tolerance of the listener\<close>

text \<open>
  C7. For a \<^verbatim>\<open>float\<close> \<open>v\<close> the setter stores \<open>0.5\<close> when \<open>v > 0.5\<close>, \<open>0\<close> when
  \<open>v < 0\<close>, and \<open>v\<close> otherwise, so the stored tolerance lies in \<open>[0, 0.5]\<close>; a value that is
  not a \<^verbatim>\<open>float\<close> leaves the listener as it was.
\<close>

theorem range_setter_floats:
  "range_setter l (PyFloat v)
     = l\<lparr>lrange := (if v > 0.5 then 0.5 else if v < 0 then 0 else v)\<rparr>
   \<and> 0 \<le> lrange (range_setter l (PyFloat v))
   \<and> lrange (range_setter l (PyFloat v)) \<le> 0.5
   \<and> (\<not> isinstance_float x \<longrightarrow> range_setter l x = l)"
  by (cases x) auto

theorem range_setter_floats_witness:
  "lrange (range_setter (new_listener :: nat ListenerGuitarra) (PyFloat 0.7)) = 0.5
   \<and> lrange (range_setter (new_listener :: nat ListenerGuitarra) (PyFloat (- 1))) = 0
   \<and> lrange (range_setter (new_listener :: nat ListenerGuitarra) (PyFloat 0.25)) = 0.25
   \<and> range_setter (new_listener :: nat ListenerGuitarra) (PyStr [48]) = new_listener"
proof -
  have a: "\<not> isinstance_float (PyStr [48])" by simp
  from range_setter_floats [of "new_listener :: nat ListenerGuitarra" "0.7" "PyStr [48]"]
       range_setter_floats [of "new_listener :: nat ListenerGuitarra" "- 1" "PyStr [48]"]
       range_setter_floats [of "new_listener :: nat ListenerGuitarra" "0.25" "PyStr [48]"]
       a
  show ?thesis by simp
qed

text \<open>
  An \<^verbatim>\<open>int\<close> is not a \<^verbatim>\<open>float\<close>: \<^verbatim>\<open>0\<close> is in range and is not stored, \<^verbatim>\<open>1\<close> is above
  \<open>0.5\<close> and the tolerance is not set to \<open>0.5\<close>.
\<close>

theorem range_setter_ignores_int:
  "lrange (range_setter (new_listener :: nat ListenerGuitarra) (PyInt 0)) = 0.5
   \<and> lrange (range_setter ((new_listener :: nat ListenerGuitarra)\<lparr>lrange := 0.25\<rparr>) (PyInt 1))
       = 0.25"
  by (simp add: new_listener_def)

section \<open>The note resolver\<close>

subsection \<open>Numeric codes\<close>

lemma py_eq_keyval: "is_number a \<Longrightarrow> is_number b \<Longrightarrow> py_eq a b = (keyval a = keyval b)"
  by (cases a; cases b) auto

lemma whole_is_number: "whole k \<Longrightarrow> is_number k"
  by (cases k) auto

lemma whole_trunc: "whole k \<Longrightarrow> real_of_int (trunc_key k) = keyval k"
proof (cases k)
  case (PyFloat x)
  assume "whole k"
  with PyFloat have "x = real_of_int \<lfloor>x\<rfloor>" by simp
  then obtain n where n: "x = real_of_int n" ..
  show ?thesis unfolding PyFloat n by simp
qed simp_all

lemma py_int_number: "is_number k \<Longrightarrow> py_int U k = Inr (trunc_key k)"
  by (cases k) auto

lemma py_eq_fraction:
  "py_eq k (PyFloat c) \<Longrightarrow> c \<noteq> real_of_int \<lfloor>c\<rfloor> \<Longrightarrow> k = PyFloat c"
  by (cases k) auto

lemma append_valores_numbers:
  "\<forall>k\<in>set ks. is_number k \<Longrightarrow> append_valores U vs ks = (None, vs @ map trunc_key ks)"
  by (induction ks arbitrary: vs) (simp_all add: py_int_number)

subsection \<open>Lookups\<close>

lemma dict_get_error: "dict_get d k = Inl err \<Longrightarrow> err = KeyError"
  by (induction d) (auto split: if_splits)

lemma dict_get_absent:
  "\<forall>k'\<in>fst ` set d. \<not> py_eq k' k \<Longrightarrow> dict_get d k = Inl KeyError"
  by (induction d) auto

lemma whole_table_Cons:
  "whole_table ((k, nm) # d) = (whole k \<and> keyval k \<notin> (\<lambda>(k, nm). keyval k) ` set d \<and> whole_table d)"
  by (auto simp: whole_table_def)

lemma whole_table_keys_number: "whole_table d \<Longrightarrow> k \<in> fst ` set d \<Longrightarrow> whole k"
  by (auto simp: whole_table_def list_all_iff)

lemma dict_get_whole_table:
  "whole_table d \<Longrightarrow> (k, nm) \<in> set d \<Longrightarrow> dict_get d (PyInt (trunc_key k)) = Inr nm"
proof (induction d)
  case Nil
  then show ?case by simp
next
  case (Cons a d)
  obtain k' v' where a: "a = (k', v')" by (cases a)
  from Cons.prems(1) have wk': "whole k'" and fresh: "keyval k' \<notin> (\<lambda>(k, nm). keyval k) ` set d"
    and wd: "whole_table d"
    by (simp_all add: a whole_table_Cons)
  have wk: "whole k"
    using Cons.prems whole_table_keys_number by force
  have eq: "py_eq k' (PyInt (trunc_key k)) = (keyval k' = keyval k)"
    using wk' wk by (simp add: py_eq_keyval whole_is_number whole_trunc)
  show ?case
  proof (cases "(k, nm) = (k', v')")
    case True
    with eq show ?thesis by (auto simp: a)
  next
    case False
    with Cons.prems(2) have m: "(k, nm) \<in> set d" by (auto simp: a)
    then have "keyval k' \<noteq> keyval k" using fresh by force
    with Cons.IH wd m show ?thesis by (simp add: a eq)
  qed
qed

subsection \<open>The scan of \<^verbatim>\<open>_callback\<close>\<close>

lemma resolve_whole_table:
  assumes "whole_table d" and "set d' \<subseteq> set d"
  shows "resolve d r nota (map trunc_key (map fst d')) = (None, notes_within d' r nota)"
  using assms(2)
proof (induction d')
  case Nil
  then show ?case by (simp add: notes_within_def)
next
  case (Cons a d')
  obtain k nm where a: "a = (k, nm)" by (cases a)
  from Cons.prems have m: "(k, nm) \<in> set d" and sub: "set d' \<subseteq> set d"
    by (simp_all add: a)
  have wk: "whole k"
    using assms(1) m whole_table_keys_number by force
  have g: "dict_get d (PyInt (trunc_key k)) = Inr nm"
    by (rule dict_get_whole_table [OF assms(1) m])
  have ih: "resolve d r nota (map trunc_key (map fst d')) = (None, notes_within d' r nota)"
    by (rule Cons.IH [OF sub])
  from ih show ?case
    by (simp add: a g whole_trunc [OF wk] notes_within_def)
qed

lemma callback_whole_table:
  assumes "whole_table (dicionario self)"
      and "valores_dicionario self = map trunc_key (map fst (dicionario self))"
  shows "callback self nota = (None, notes_within (dicionario self) (irange self) nota)"
  unfolding callback_def assms(2)
  by (rule resolve_whole_table [OF assms(1) subset_refl])

lemma resolve_key_error:
  "v \<in> set vs \<Longrightarrow> \<bar>codigo nota - real_of_int v\<bar> \<le> r \<Longrightarrow> dict_get d (PyInt v) = Inl KeyError
     \<Longrightarrow> fst (resolve d r nota vs) = Some KeyError"
proof (induction vs)
  case Nil
  then show ?case by simp
next
  case (Cons u vs)
  show ?case
  proof (cases "\<bar>codigo nota - real_of_int u\<bar> \<le> r")
    case False
    with Cons show ?thesis by auto
  next
    case True
    show ?thesis
    proof (cases "dict_get d (PyInt u)")
      case (Inl err)
      then have "err = KeyError" by (rule dict_get_error)
      with Inl True show ?thesis by simp
    next
      case (Inr nm)
      with Cons.prems have "v \<in> set vs" by auto
      with Cons have "fst (resolve d r nota vs) = Some KeyError" by simp
      with Inr True show ?thesis by (cases "resolve d r nota vs") simp
    qed
  qed
qed

subsection \<open>Configuration\<close>

text \<open>
  On a new interface, with a table of numeric codes after the call of the base class,
  \<^verbatim>\<open>atribui_notas\<close> raises nothing and \<^verbatim>\<open>_valores_dicionario\<close> holds \<^verbatim>\<open>int(key)\<close> for the
  keys of the table, in order.
\<close>

lemma atribui_notas_numbers:
  assumes "new_interface d0 serial_port rangen = Inr self0"
      and "\<forall>k\<in>fst ` set (super_atribui_notas d0 kwargs). is_number k"
      and "atribui_notas U super_atribui_notas self0 kwargs = (x, self)"
  shows "x = None"
    and "dicionario self = super_atribui_notas d0 kwargs"
    and "valores_dicionario self = map trunc_key (map fst (dicionario self))"
    and "irange self = irange self0"
    and "listener self = new_listener"
proof -
  have d0: "dicionario self0 = d0" and v0: "valores_dicionario self0 = []"
    and l0: "listener self0 = new_listener"
    using assms(1) by (auto simp: new_interface_def split: pyval.splits if_splits)
  define d where "d = super_atribui_notas d0 kwargs"
  have nums: "\<forall>k\<in>set (map fst d). is_number k"
    using assms(2) by (simp add: d_def)
  have av: "append_valores U [] (map fst d) = (None, map trunc_key (map fst d))"
    using append_valores_numbers [OF nums, of U "[]"] by simp
  from assms(3) have r: "x = None
      \<and> self = self0\<lparr>dicionario := d, valores_dicionario := map trunc_key (map fst d)\<rparr>"
    by (simp add: atribui_notas_def d0 v0 d_def [symmetric] av Let_def)
  from r show "x = None" by simp
  from r show "dicionario self = super_atribui_notas d0 kwargs" by (simp add: d_def)
  from r show "valores_dicionario self = map trunc_key (map fst (dicionario self))" by simp
  from r show "irange self = irange self0" by simp
  from r l0 show "listener self = new_listener" by simp
qed

lemma whole_table_numbers: "whole_table d \<Longrightarrow> \<forall>k\<in>fst ` set d. is_number k"
  using whole_table_keys_number whole_is_number by blast

lemma new_interface_nova: "new_interface base_init 0 (PyFloat 0.5) = Inr interface_nova"
  by (simp add: new_interface_def interface_nova_def)

text \<open>
  The table that the modelled method of the base class builds from whole-number codes is a
  table of whole-number codes.
\<close>

lemma dict_set_keys:
  "map fst (dict_set d k v)
     = (if \<exists>k'\<in>fst ` set d. py_eq k' k then map fst d else map fst d @ [k])"
  by (induction d) force+

lemma dict_set_key_set: "fst ` set (dict_set d k v) \<subseteq> insert k (fst ` set d)"
proof -
  have "set (map fst (dict_set d k v)) \<subseteq> insert k (set (map fst d))"
    unfolding dict_set_keys by auto
  then show ?thesis by simp
qed

lemma dict_set_whole_table:
  assumes "whole_table d" and "whole k"
  shows "whole_table (dict_set d k v)"
  using assms
proof (induction d)
  case Nil
  then show ?case by (simp add: whole_table_def)
next
  case (Cons a d)
  obtain k' v' where a: "a = (k', v')" by (cases a)
  from Cons.prems(1) have wk': "whole k'" and fresh: "keyval k' \<notin> (\<lambda>(k, nm). keyval k) ` set d"
    and wd: "whole_table d"
    by (simp_all add: a whole_table_Cons)
  show ?case
  proof (cases "py_eq k' k")
    case True
    then show ?thesis using wk' fresh wd by (simp add: a whole_table_Cons)
  next
    case False
    then have ne: "keyval k' \<noteq> keyval k"
      using wk' Cons.prems(2) by (simp add: py_eq_keyval whole_is_number)
    have ih: "whole_table (dict_set d k v)"
      using Cons.IH wd Cons.prems(2) by simp
    have "keyval k' \<notin> (\<lambda>(k, nm). keyval k) ` set (dict_set d k v)"
    proof
      assume "keyval k' \<in> (\<lambda>(k, nm). keyval k) ` set (dict_set d k v)"
      then obtain k2 v2 where m: "(k2, v2) \<in> set (dict_set d k v)" and e: "keyval k' = keyval k2"
        by auto
      from m have "k2 \<in> fst ` set (dict_set d k v)" by force
      with dict_set_key_set [of d k v] have "k2 = k \<or> k2 \<in> fst ` set d"
        by auto
      then show False
      proof (elim disjE)
        assume "k2 = k"
        with e ne show False by simp
      next
        assume "k2 \<in> fst ` set d"
        with e fresh show False by force
      qed
    qed
    with False wk' ih show ?thesis by (simp add: a whole_table_Cons)
  qed
qed

lemma base_atribui_notas_whole_table:
  "whole_table d \<Longrightarrow> \<forall>(name, code)\<in>set kwargs. whole code \<Longrightarrow>
     whole_table (base_atribui_notas d kwargs)"
proof (induction kwargs arbitrary: d)
  case Nil
  then show ?case by simp
next
  case (Cons a kwargs)
  obtain name code where a: "a = (name, code)" by (cases a)
  have "whole code" using Cons.prems(2) by (simp add: a)
  with Cons.prems(1) have "whole_table (dict_set d code name)"
    by (rule dict_set_whole_table)
  with Cons.IH Cons.prems(2) show ?case by (simp add: a)
qed

lemma guitarra_table:
  "base_atribui_notas base_init guitarra_kwargs
     = [(PyFloat 1, ''nota1''), (PyFloat 2, ''nota2''), (PyFloat 3, ''nota3''),
        (PyFloat 4, ''nota4''), (PyFloat 5, ''nota5'')]"
  by (simp add: guitarra_kwargs_def base_init_def)

lemma guitarra_whole_table: "whole_table (base_atribui_notas base_init guitarra_kwargs)"
  by (rule base_atribui_notas_whole_table)
     (simp_all add: base_init_def whole_table_def guitarra_kwargs_def)

subsection \<open>Resolution of a sample\<close>

text \<open>
  C5. On a new interface whose binding table, after \<^verbatim>\<open>atribui_notas\<close>, holds whole-number
  codes, \<^verbatim>\<open>_callback\<close> raises nothing and hands to the callback of the user, for a
  sample, exactly one note for each entry of the table whose code is within the tolerance
  of the code of the sample (\<open>\<le>\<close>), in the order of the table, with the name of the entry
  and the \<open>on\<close> of the sample. With the bindings of the game and tolerance \<open>0.5\<close>, the
  sample of code \<open>3\<close> and \<open>on\<close> gives \<open>nota3\<close>, on, and nothing else.
\<close>

theorem resolver_whole_codes:
  assumes "new_interface d0 serial_port rangen = Inr self0"
      and "whole_table (super_atribui_notas d0 kwargs)"
      and "atribui_notas U super_atribui_notas self0 kwargs = (x, self)"
  shows "x = None
         \<and> dicionario self = super_atribui_notas d0 kwargs
         \<and> callback self nota = (None, notes_within (dicionario self) (irange self) nota)"
proof -
  note a = atribui_notas_numbers [OF assms(1) whole_table_numbers [OF assms(2)] assms(3)]
  have wt: "whole_table (dicionario self)"
    using a(2) assms(2) by simp
  from a(1) a(2) callback_whole_table [OF wt a(3)] show ?thesis by simp
qed

theorem resolver_whole_codes_witness:
  "fst (atribui_notas latin1 base_atribui_notas interface_nova guitarra_kwargs) = None
   \<and> callback (snd (atribui_notas latin1 base_atribui_notas interface_nova guitarra_kwargs))
        \<lparr> codigo = 3, on = True \<rparr>
       = (None, [\<lparr> nome = ''nota3'', p_on = True \<rparr>])"
proof -
  have r: "atribui_notas latin1 base_atribui_notas interface_nova guitarra_kwargs
             = (fst (atribui_notas latin1 base_atribui_notas interface_nova guitarra_kwargs),
                snd (atribui_notas latin1 base_atribui_notas interface_nova guitarra_kwargs))"
    by simp
  have i: "irange (snd (atribui_notas latin1 base_atribui_notas interface_nova guitarra_kwargs))
             = 0.5"
    by (simp add: atribui_notas_def interface_nova_def Let_def split: prod.splits)
  from resolver_whole_codes [OF new_interface_nova guitarra_whole_table r,
         of "\<lparr> codigo = 3, on = True \<rparr>"]
  show ?thesis
    by (simp add: guitarra_table i notes_within_def)
qed

text \<open>
  With \<open>nota1\<close> bound to \<open>1.5\<close> and tolerance \<open>0.5\<close>, the sample of code \<open>2\<close> is within the
  tolerance of the bound code, and \<^verbatim>\<open>_callback\<close> hands out nothing: it compares the
  sample with \<^verbatim>\<open>int(1.5)\<close>, which is \<open>1\<close>.
\<close>

theorem resolver_truncates_code:
  "callback (snd (atribui_notas latin1 base_atribui_notas interface_nova
                    [(''nota1'', PyFloat 1.5)])) \<lparr> codigo = 2, on = True \<rparr>
     = (None, [])
   \<and> dicionario (snd (atribui_notas latin1 base_atribui_notas interface_nova
                        [(''nota1'', PyFloat 1.5)])) = [(PyFloat 1.5, ''nota1'')]
   \<and> irange (snd (atribui_notas latin1 base_atribui_notas interface_nova
                     [(''nota1'', PyFloat 1.5)])) = 0.5
   \<and> \<bar>codigo \<lparr> codigo = 2, on = True \<rparr> - 1.5\<bar> \<le> (0.5 :: real)
   \<and> notes_within [(PyFloat 1.5, ''nota1'')] 0.5 \<lparr> codigo = 2, on = True \<rparr>
       = [\<lparr> nome = ''nota1'', p_on = True \<rparr>]"
  by (simp add: atribui_notas_def interface_nova_def base_init_def callback_def notes_within_def)

subsection \<open>The port under repeated starts\<close>

text \<open>
  The port under repeated calls of \<^verbatim>\<open>InterfaceGuitarra.start()\<close>. Each call assigns the
  same \<^verbatim>\<open>Serial\<close> object to \<^verbatim>\<open>input_port\<close>, and the setter closes the port it held
  before: after the second call the port of the interface is closed, and a loop that
  finds its port closed reads no further line.
\<close>

lemma input_port_setter_opens:
  assumes "input_port_setter l e p = (x, l', e')" and "is_open e p \<or> openable e p"
  shows "x = None \<and> l' = l\<lparr>input_port := Some p\<rparr>
         \<and> is_open e' p = (input_port l \<noteq> Some p) \<and> openable e' = openable e"
proof (cases "input_port l")
  case None
  with assms show ?thesis
    by (auto simp: input_port_setter_def Let_def split: if_splits)
next
  case (Some old)
  with assms show ?thesis
    by (auto simp: input_port_setter_def Let_def split: if_splits)
qed

lemma start_keeps_ports:
  "start l e = (l', e') \<Longrightarrow>
     is_open e' = is_open e \<and> openable e' = openable e \<and> input_port l' = input_port l"
  by (auto simp: start_def split: if_splits)

lemma interface_start_port:
  assumes "interface_start self e = (x, s, e')"
      and "is_open e (porta self) \<or> openable e (porta self)"
  shows "x = None \<and> input_port (listener s) = Some (porta self) \<and> porta s = porta self
         \<and> is_open e' (porta self) = (input_port (listener self) \<noteq> Some (porta self))
         \<and> openable e' = openable e"
proof -
  define l1 where "l1 = callback_setter (listener self) Lambda_callback"
  obtain y l2 e2 where p: "input_port_setter l1 e (porta self) = (y, l2, e2)"
    by (cases "input_port_setter l1 e (porta self)") auto
  note q = input_port_setter_opens [OF p assms(2)]
  obtain l3 e3 where st: "start l2 e2 = (l3, e3)"
    by (cases "start l2 e2") auto
  note k = start_keeps_ports [OF st]
  have r: "x = None \<and> s = self\<lparr>listener := l3\<rparr> \<and> e' = e3"
    using assms(1) p q st by (simp add: interface_start_def l1_def [symmetric])
  have i: "input_port l1 = input_port (listener self)"
    by (simp add: l1_def callback_setter_def)
  from r k q i show ?thesis by simp
qed

lemma second_start_closes_port:
  assumes "openable e (porta self)"
      and "input_port (listener self) = None"
      and "interface_start self e = (x1, s1, e1)"
      and "interface_start s1 e1 = (x2, s2, e2)"
  shows "x1 = None \<and> x2 = None \<and> is_open e1 (porta self) \<and> \<not> is_open e2 (porta self)
         \<and> input_port (listener s2) = Some (porta self)"
proof -
  have a: "x1 = None \<and> input_port (listener s1) = Some (porta self) \<and> porta s1 = porta self
         \<and> is_open e1 (porta self) \<and> openable e1 = openable e"
    using interface_start_port [OF assms(3)] assms(1,2) by simp
  then have "is_open e1 (porta s1) \<or> openable e1 (porta s1)" by simp
  from interface_start_port [OF assms(4) this] a show ?thesis by simp
qed


subsection \<open>Repeated starts\<close>



lemma dispatch_first_raises:
  "fst (callback self nota) = Some err \<Longrightarrow>
     fst (dispatch (invoke_interface self) (c # cs) nota w) = Some err"
  by (cases "callback self nota") (simp add: invoke_interface_def)











subsection \<open>Codes with a fractional part\<close>

text \<open>
  C10. When the binding table of a new interface, after \<^verbatim>\<open>atribui_notas\<close>, holds numeric
  codes, one of them with a fractional part, and no code equal to the integer that
  \<^verbatim>\<open>int()\<close> truncates it to, the configuration raises nothing, and \<^verbatim>\<open>_callback\<close> raises
  \<^verbatim>\<open>KeyError\<close> on every sample within the tolerance of the truncated code; so does the
  iteration of the polling loop that dispatches such a sample.
\<close>

theorem fractional_code_key_error:
  assumes "new_interface d0 serial_port rangen = Inr self0"
      and "\<forall>k\<in>fst ` set (super_atribui_notas d0 kwargs). is_number k"
      and "PyFloat c \<in> fst ` set (super_atribui_notas d0 kwargs)"
      and "c \<noteq> real_of_int \<lfloor>c\<rfloor>"
      and "\<forall>k\<in>fst ` set (super_atribui_notas d0 kwargs).
             \<not> py_eq k (PyInt (trunc_key (PyFloat c)))"
      and "atribui_notas U super_atribui_notas self0 kwargs = (x, self)"
      and "\<bar>codigo nota - real_of_int (trunc_key (PyFloat c))\<bar> \<le> irange self"
  shows "x = None
         \<and> fst (callback self nota) = Some KeyError
         \<and> (parse_line U linha = Note nota \<and> nota_buffer l = Some prev \<and> edge l prev nota
              \<and> callbacks l \<noteq> [] \<longrightarrow>
            raised (loop_body U (invoke_interface self) l w linha) = Some KeyError)"
proof -
  note a = atribui_notas_numbers [OF assms(1,2,6)]
  have m: "trunc_key (PyFloat c) \<in> set (valores_dicionario self)"
    unfolding a(3) a(2) using assms(3) by force
  have g: "dict_get (dicionario self) (PyInt (trunc_key (PyFloat c))) = Inl KeyError"
    unfolding a(2) by (rule dict_get_absent [OF assms(5)])
  have ke: "fst (callback self nota) = Some KeyError"
    unfolding callback_def by (rule resolve_key_error [OF m assms(7) g])
  have lp: "raised (loop_body U (invoke_interface self) l w linha) = Some KeyError"
    if p: "parse_line U linha = Note nota" and b: "nota_buffer l = Some prev"
      and e: "edge l prev nota" and c: "callbacks l \<noteq> []"
  proof -
    obtain c0 cs where cs: "callbacks l = c0 # cs"
      using c by (cases "callbacks l") auto
    obtain x1 w1 called
      where dd: "dispatch (invoke_interface self) (callbacks l) nota w = (x1, w1, called)"
      by (cases "dispatch (invoke_interface self) (callbacks l) nota w") auto
    have "fst (dispatch (invoke_interface self) (callbacks l) nota w) = Some KeyError"
      unfolding cs by (rule dispatch_first_raises [OF ke])
    with dd have x1: "x1 = Some KeyError" by simp
    show ?thesis
      by (simp add: loop_body_edge [OF p b e dd] x1)
  qed
  from a(1) ke lp show ?thesis by blast
qed

theorem fractional_code_key_error_witness:
  "fst (atribui_notas latin1 base_atribui_notas interface_nova [(''nota1'', PyFloat 1.5)]) = None
   \<and> fst (callback (snd (atribui_notas latin1 base_atribui_notas interface_nova
                           [(''nota1'', PyFloat 1.5)]))
            \<lparr> codigo = 1, on = True \<rparr>) = Some KeyError
   \<and> raised (loop_body latin1
         (invoke_interface (snd (atribui_notas latin1 base_atribui_notas interface_nova
                                   [(''nota1'', PyFloat 1.5)])))
         ((new_listener :: registered ListenerGuitarra)
            \<lparr>callbacks := [Lambda_callback], nota_buffer := Some \<lparr> codigo = 1, on = False \<rparr>\<rparr>)
         [] ''1;1'') = Some KeyError"
proof -
  have n: "\<forall>k\<in>fst ` set (base_atribui_notas base_init [(''nota1'', PyFloat 1.5)]). is_number k"
    by (simp add: base_init_def)
  have m: "PyFloat 1.5 \<in> fst ` set (base_atribui_notas base_init [(''nota1'', PyFloat 1.5)])"
    by (simp add: base_init_def)
  have f: "(1.5 :: real) \<noteq> real_of_int \<lfloor>1.5 :: real\<rfloor>"
    by simp
  have q: "\<forall>k\<in>fst ` set (base_atribui_notas base_init [(''nota1'', PyFloat 1.5)]).
             \<not> py_eq k (PyInt (trunc_key (PyFloat 1.5)))"
    by (simp add: base_init_def)
  have a: "atribui_notas latin1 base_atribui_notas interface_nova [(''nota1'', PyFloat 1.5)]
             = (fst (atribui_notas latin1 base_atribui_notas interface_nova
                       [(''nota1'', PyFloat 1.5)]),
                snd (atribui_notas latin1 base_atribui_notas interface_nova
                       [(''nota1'', PyFloat 1.5)]))"
    by simp
  have t: "\<bar>codigo \<lparr> codigo = 1, on = True \<rparr> - real_of_int (trunc_key (PyFloat 1.5))\<bar>
             \<le> irange (snd (atribui_notas latin1 base_atribui_notas interface_nova
                               [(''nota1'', PyFloat 1.5)]))"
    by (simp add: atribui_notas_def interface_nova_def base_init_def)
  have e: "edge ((new_listener :: registered ListenerGuitarra)
            \<lparr>callbacks := [Lambda_callback], nota_buffer := Some \<lparr> codigo = 1, on = False \<rparr>\<rparr>)
            \<lparr> codigo = 1, on = False \<rparr> \<lparr> codigo = 1, on = True \<rparr>"
    by (simp add: edge_def new_listener_def)
  from fractional_code_key_error [OF new_interface_nova n m f q a t,
         where linha = "''1;1''"
           and l = "(new_listener :: registered ListenerGuitarra)
               \<lparr>callbacks := [Lambda_callback],
                nota_buffer := Some \<lparr> codigo = 1, on = False \<rparr>\<rparr>"
           and prev = "\<lparr> codigo = 1, on = False \<rparr>" and w = "[]"]
       parse_1_1 e
  show ?thesis by simp
qed

text \<open>
  With \<open>nota1\<close> bound to \<open>1.5\<close> and \<open>nota2\<close> bound to \<open>1\<close>, the sample of code \<open>1\<close> is
  within the tolerance of the truncated code and \<^verbatim>\<open>_callback\<close> raises nothing: the lookup
  of \<open>1\<close> finds \<open>nota2\<close>, twice.
\<close>

theorem truncated_code_also_bound:
  "fst (atribui_notas latin1 base_atribui_notas interface_nova
          [(''nota1'', PyFloat 1.5), (''nota2'', PyFloat 1)]) = None
   \<and> dicionario (snd (atribui_notas latin1 base_atribui_notas interface_nova
                        [(''nota1'', PyFloat 1.5), (''nota2'', PyFloat 1)]))
       = [(PyFloat 1.5, ''nota1''), (PyFloat 1, ''nota2'')]
   \<and> \<bar>codigo \<lparr> codigo = 1, on = True \<rparr> - real_of_int (trunc_key (PyFloat 1.5))\<bar>
       \<le> irange (snd (atribui_notas latin1 base_atribui_notas interface_nova
                         [(''nota1'', PyFloat 1.5), (''nota2'', PyFloat 1)]))
   \<and> callback (snd (atribui_notas latin1 base_atribui_notas interface_nova
                      [(''nota1'', PyFloat 1.5), (''nota2'', PyFloat 1)]))
        \<lparr> codigo = 1, on = True \<rparr>
       = (None, [\<lparr> nome = ''nota2'', p_on = True \<rparr>, \<lparr> nome = ''nota2'', p_on = True \<rparr>])"
  by (simp add: atribui_notas_def interface_nova_def base_init_def callback_def)

end
